theory Spec2Isabelle
  imports Complex_Main
begin

section \<open>Stimulus segments of \<^verbatim>\<open>ipfx/x_to_nwb/hr_segments.py\<close>\<close>

text \<open>
  The module expands the parametric description of one stimulus segment (constant,
  ramp, square wave, chirp) into the sample array of a given sweep.

  Numbers. The source computes with Python floats. A finite float is modelled by the
  real number it denotes and the arithmetic on finite values is exact (no rounding, no
  overflow, no infinities). The one non-finite value that the module itself
  creates, \<^verbatim>\<open>float('nan')\<close>, is modelled by the constructor \<open>NaN\<close>. The fields of
  the three input records hold finite values. Python integers are \<open>int\<close>.

  Errors. Every \<^verbatim>\<open>raise\<close> of the source, and every exception of a Python, NumPy
  or SciPy operation it calls, is a value \<open>Inl e\<close> of the result type.
\<close>

subsection \<open>Floats, errors\<close>

datatype pyfloat = Fin real | NaN

datatype msg =
    Unsupported_segment_class string
  | Increment_mode_not_supported string
  | Unsupported_baseIncr real
  | Unsupported_durationFactor real
  | Delta_modes_not_supported
  | Invalid_cycle_duration
  | Unsupported_voltage_source string
  | Chirp_kind_not_supported string
  | Cannot_convert_NaN_to_integer
  | Negative_dimensions
  | Negative_number_of_samples
  | Does_not_own_its_data
  | Log_chirp_needs_same_sign

datatype error =
    ValueError msg
  | AttributeError string
  | UnboundLocalError string
  | ZeroDivisionError

text \<open>Float arithmetic: a \<open>NaN\<close> operand makes the result \<open>NaN\<close>.\<close>

fun fadd :: "pyfloat \<Rightarrow> pyfloat \<Rightarrow> pyfloat" where
  "fadd (Fin a) (Fin b) = Fin (a + b)"
| "fadd _ _ = NaN"

fun fsub :: "pyfloat \<Rightarrow> pyfloat \<Rightarrow> pyfloat" where
  "fsub (Fin a) (Fin b) = Fin (a - b)"
| "fsub _ _ = NaN"

fun fmul :: "pyfloat \<Rightarrow> pyfloat \<Rightarrow> pyfloat" where
  "fmul (Fin a) (Fin b) = Fin (a * b)"
| "fmul _ _ = NaN"

text \<open>
  Python's \<^verbatim>\<open>a / b\<close> on floats raises \<^verbatim>\<open>ZeroDivisionError\<close> when \<^verbatim>\<open>b == 0\<close>,
  also for a \<open>NaN\<close> numerator.
\<close>

definition truediv :: "pyfloat \<Rightarrow> pyfloat \<Rightarrow> error + pyfloat" where
  "truediv a b =
     (if b = Fin 0 then Inl ZeroDivisionError
      else case (a, b) of
             (Fin x, Fin y) \<Rightarrow> Inr (Fin (x / y))
           | _ \<Rightarrow> Inr NaN)"

text \<open>
  NumPy's elementwise division of floats does not raise: a finite value divided by
  zero is infinite or \<open>NaN\<close> there; the model, which has no infinities, gives \<open>NaN\<close>.
\<close>

fun np_divide :: "pyfloat \<Rightarrow> pyfloat \<Rightarrow> pyfloat" where
  "np_divide (Fin a) (Fin b) = (if b = 0 then NaN else Fin (a / b))"
| "np_divide _ _ = NaN"

text \<open>\<^verbatim>\<open>math.trunc\<close> and \<^verbatim>\<open>int\<close> round towards zero and reject \<open>NaN\<close>.\<close>

definition trunc_real :: "real \<Rightarrow> int" where
  "trunc_real x = (if 0 \<le> x then \<lfloor>x\<rfloor> else \<lceil>x\<rceil>)"

fun math_trunc :: "pyfloat \<Rightarrow> error + int" where
  "math_trunc (Fin x) = Inr (trunc_real x)"
| "math_trunc NaN = Inl (ValueError Cannot_convert_NaN_to_integer)"

fun math_ceil :: "pyfloat \<Rightarrow> error + int" where
  "math_ceil (Fin x) = Inr \<lceil>x\<rceil>"
| "math_ceil NaN = Inl (ValueError Cannot_convert_NaN_to_integer)"

subsection \<open>The input records\<close>

record StimulationRecord =
  SampleInterval :: real

record ChannelRecordStimulus =
  Square_PosAmpl :: real
  Square_NegAmpl :: real
  Square_Cycle :: real
  Square_DurFactor :: real
  Square_BaseIncr :: real
  Square_Kind :: string
  Chirp_Amplitude :: real
  Chirp_StartFreq :: real
  Chirp_EndFreq :: real
  Chirp_Kind :: string
  Holding :: real

record StimSegmentRecord =
  Class :: string
  DurationIncMode :: string
  DeltaTFactor :: real
  DeltaTIncrement :: real
  VoltageIncMode :: string
  DeltaVFactor :: real
  DeltaVIncrement :: real
  Duration :: real
  VoltageSource :: string
  Voltage :: real

subsection \<open>The base class \<^verbatim>\<open>Segment\<close>\<close>

record deltaDict =
  mode :: string
  factor :: real
  inc :: real

record Segment =
  xDelta :: deltaDict
  yDelta :: deltaDict
  duration :: real
  sampleInterval :: real
  amplitudeScale :: real

definition Segment_init ::
  "StimulationRecord \<Rightarrow> ChannelRecordStimulus \<Rightarrow> StimSegmentRecord \<Rightarrow> Segment" where
  "Segment_init stimRec channelRec segmentRec =
     \<lparr> xDelta = \<lparr> mode = DurationIncMode segmentRec,
                  factor = DeltaTFactor segmentRec,
                  inc = DeltaTIncrement segmentRec \<rparr>,
       yDelta = \<lparr> mode = VoltageIncMode segmentRec,
                  factor = DeltaVFactor segmentRec,
                  inc = DeltaVIncrement segmentRec \<rparr>,
       duration = Duration segmentRec,
       sampleInterval = SampleInterval stimRec,
       amplitudeScale = 1000 \<rparr>"

definition hasDelta :: "deltaDict \<Rightarrow> bool" where
  "hasDelta d \<longleftrightarrow> factor d \<noteq> 1 \<or> inc d \<noteq> 0"

definition applyDelta :: "deltaDict \<Rightarrow> real \<Rightarrow> int \<Rightarrow> error + pyfloat" where
  "applyDelta d val sweepNo =
     (if \<not> hasDelta d then Inr (Fin val)
      else if mode d = ''Inc'' then Inr (Fin (val + inc d * of_int sweepNo))
      else if mode d = ''LogInc'' then Inr NaN
      else Inl (ValueError (Increment_mode_not_supported (mode d))))"

definition applyAmplitudeScale :: "'a Segment_scheme \<Rightarrow> pyfloat \<Rightarrow> pyfloat" where
  "applyAmplitudeScale self a = fmul a (Fin (amplitudeScale self))"

text \<open>
  \<^verbatim>\<open>_step\<close> builds the pair of the two stepped values; the x value is computed first,
  so its error wins.
\<close>

definition step ::
  "'a Segment_scheme \<Rightarrow> real \<Rightarrow> real \<Rightarrow> int \<Rightarrow> error + (pyfloat \<times> pyfloat)" where
  "step self xValue yValue sweepNo =
     (case applyDelta (xDelta self) xValue sweepNo of
        Inl e \<Rightarrow> Inl e
      | Inr x \<Rightarrow>
          (case applyDelta (yDelta self) yValue sweepNo of
             Inl e \<Rightarrow> Inl e
           | Inr y \<Rightarrow> Inr (x, y)))"

definition hasXDelta :: "'a Segment_scheme \<Rightarrow> bool" where
  "hasXDelta self = hasDelta (xDelta self)"

definition hasYDelta :: "'a Segment_scheme \<Rightarrow> bool" where
  "hasYDelta self = hasDelta (yDelta self)"

definition calculateNumberOfPoints :: "'a Segment_scheme \<Rightarrow> pyfloat \<Rightarrow> error + int" where
  "calculateNumberOfPoints self d =
     (case truediv d (Fin (sampleInterval self)) of
        Inl e \<Rightarrow> Inl e
      | Inr q \<Rightarrow> math_trunc q)"

subsection \<open>NumPy arrays\<close>

text \<open>
  A one-dimensional float array is the list of its elements together with the flag
  \<^verbatim>\<open>flags.owndata\<close>, which \<^verbatim>\<open>ndarray.resize\<close> inspects.
\<close>

record ndarray =
  items :: "pyfloat list"
  owndata :: bool

definition np_zeros :: "int \<Rightarrow> error + ndarray" where
  "np_zeros n =
     (if n < 0 then Inl (ValueError Negative_dimensions)
      else Inr \<lparr> items = replicate (nat n) (Fin 0), owndata = True \<rparr>)"

definition np_full :: "int \<Rightarrow> pyfloat \<Rightarrow> error + pyfloat list" where
  "np_full n v =
     (if n < 0 then Inl (ValueError Negative_dimensions)
      else Inr (replicate (nat n) v))"

text \<open>
  A slice bound of Python: a negative bound counts from the end, and every bound is
  clipped to the length.
\<close>

definition slice_bound :: "nat \<Rightarrow> int \<Rightarrow> nat" where
  "slice_bound len i = (if i < 0 then nat (max 0 (int len + i)) else min (nat i) len)"

text \<open>\<^verbatim>\<open>a[lo:hi] = v\<close> with a scalar \<open>v\<close>; a missing bound is \<open>None\<close>.\<close>

definition assign_slice :: "ndarray \<Rightarrow> int option \<Rightarrow> int option \<Rightarrow> pyfloat \<Rightarrow> ndarray" where
  "assign_slice a lo hi v =
     (let len = length (items a);
          l = (case lo of None \<Rightarrow> 0 | Some i \<Rightarrow> slice_bound len i);
          h = (case hi of None \<Rightarrow> len | Some i \<Rightarrow> slice_bound len i)
      in a\<lparr> items := take l (items a) @ replicate (h - l) v @ drop (max l h) (items a) \<rparr>)"

text \<open>
  \<^verbatim>\<open>np.tile(A, reps)\<close> for a one-dimensional \<open>A\<close> and an integer \<open>reps\<close>. With
  \<open>reps = 1\<close> NumPy returns a copy of \<open>A\<close>, which owns its data. Otherwise it
  repeats the rows of \<open>A\<close> (a negative count is refused when \<open>A\<close> is not empty) and
  returns \<^verbatim>\<open>c.reshape(shape_out)\<close>: a view of the repeated array, which does not own
  its data.
\<close>

definition np_tile :: "ndarray \<Rightarrow> int \<Rightarrow> error + ndarray" where
  "np_tile A reps =
     (if reps = 1 then Inr \<lparr> items = items A, owndata = True \<rparr>
      else if items A \<noteq> [] \<and> reps < 0 then Inl (ValueError Negative_dimensions)
      else Inr \<lparr> items = concat (replicate (nat reps) (items A)), owndata = False \<rparr>)"

text \<open>
  \<^verbatim>\<open>a.resize(n)\<close> changes the array in place: it refuses a negative size, and a
  change of size of an array that does not own its data; it cuts the array, or
  fills the missing entries with zeros.
\<close>

definition ndarray_resize :: "ndarray \<Rightarrow> int \<Rightarrow> error + ndarray" where
  "ndarray_resize a n =
     (if n < 0 then Inl (ValueError Negative_dimensions)
      else if int (length (items a)) \<noteq> n \<and> \<not> owndata a
        then Inl (ValueError Does_not_own_its_data)
      else Inr (a\<lparr> items := take (nat n) (items a)
                             @ replicate (nat n - length (items a)) (Fin 0) \<rparr>))"

text \<open>
  \<^verbatim>\<open>np.linspace(start, stop, num)\<close>: \<open>num\<close> samples \<open>start + i * step\<close> with
  \<open>step = (stop - start) / (num - 1)\<close>, the last one set to \<open>stop\<close> when \<open>num > 1\<close>.
\<close>

definition np_linspace :: "pyfloat \<Rightarrow> pyfloat \<Rightarrow> int \<Rightarrow> error + pyfloat list" where
  "np_linspace start stop num =
     (if num < 0 then Inl (ValueError Negative_number_of_samples)
      else
        let divisor = num - 1;
            delta = fsub stop start;
            y = map (\<lambda>i. Fin (of_nat i)) [0 ..< nat num];
            y = (if divisor > 0 then
                   (let step = np_divide delta (Fin (of_int divisor))
                    in if step = Fin 0
                       then map (\<lambda>v. fmul (np_divide v (Fin (of_int divisor))) delta) y
                       else map (\<lambda>v. fmul v step) y)
                 else map (\<lambda>v. fmul v delta) y);
            y = map (\<lambda>v. fadd v start) y
        in Inr (if num > 1 then y[nat num - 1 := stop] else y))"

subsection \<open>\<^verbatim>\<open>SquareSegment\<close>\<close>

record SquareSegment = Segment +
  posAmp :: real
  negAmp :: real
  cycleDuration :: real
  durationFactor :: real
  baseIncr :: real
  kind :: string

text \<open>
  The constructor. The branch for an unsupported kind formats its message from
  \<^verbatim>\<open>self.squareKind\<close>, an attribute that no class of the module sets (the kind is
  stored as \<^verbatim>\<open>self.kind\<close>): evaluating the message raises \<^verbatim>\<open>AttributeError\<close>
  before the \<^verbatim>\<open>ValueError\<close> is built.
\<close>

definition SquareSegment_init ::
  "StimulationRecord \<Rightarrow> ChannelRecordStimulus \<Rightarrow> StimSegmentRecord \<Rightarrow> error + SquareSegment" where
  "SquareSegment_init stimRec channelRec segmentRec =
     (let self = Segment.extend (Segment_init stimRec channelRec segmentRec)
                   (SquareSegment.fields
                      (Square_PosAmpl channelRec) (Square_NegAmpl channelRec)
                      (Square_Cycle channelRec) (Square_DurFactor channelRec)
                      (Square_BaseIncr channelRec) (Square_Kind channelRec))
      in if baseIncr self \<noteq> 0 then Inl (ValueError (Unsupported_baseIncr (baseIncr self)))
         else if durationFactor self \<noteq> 0
           then Inl (ValueError (Unsupported_durationFactor (durationFactor self)))
         else if kind self \<noteq> ''Common Frequency'' then Inl (AttributeError ''squareKind'')
         else if hasXDelta self \<or> hasYDelta self then Inl (ValueError Delta_modes_not_supported)
         else if \<not> (cycleDuration self > 0) then Inl (ValueError Invalid_cycle_duration)
         else Inr self)"

text \<open>Lines 226 to 231 of \<^verbatim>\<open>createArray\<close>: the array \<^verbatim>\<open>oneCycle\<close>.\<close>

definition SquareSegment_oneCycle :: "SquareSegment \<Rightarrow> error + ndarray" where
  "SquareSegment_oneCycle self =
     (case truediv (Fin (cycleDuration self)) (Fin (sampleInterval self)) of
        Inl e \<Rightarrow> Inl e
      | Inr q \<Rightarrow>
     (case math_trunc q of
        Inl e \<Rightarrow> Inl e
      | Inr numPointsCycle \<Rightarrow>
     (case np_zeros numPointsCycle of
        Inl e \<Rightarrow> Inl e
      | Inr oneCycle \<Rightarrow>
          (let halfCycleLength = trunc_real (of_int numPointsCycle / 2);
               oneCycle = assign_slice oneCycle None (Some halfCycleLength)
                            (applyAmplitudeScale self (Fin (posAmp self)));
               oneCycle = assign_slice oneCycle (Some halfCycleLength) None
                            (applyAmplitudeScale self (Fin (- posAmp self)))
           in Inr oneCycle))))"

text \<open>Lines 233 to 235: the array \<^verbatim>\<open>segment\<close> before it is resized.\<close>

definition SquareSegment_tiled :: "SquareSegment \<Rightarrow> error + ndarray" where
  "SquareSegment_tiled self =
     (case SquareSegment_oneCycle self of
        Inl e \<Rightarrow> Inl e
      | Inr oneCycle \<Rightarrow>
     (case truediv (Fin (duration self)) (Fin (cycleDuration self)) of
        Inl e \<Rightarrow> Inl e
      | Inr q \<Rightarrow>
     (case math_ceil q of
        Inl e \<Rightarrow> Inl e
      | Inr numCycles \<Rightarrow> np_tile oneCycle numCycles)))"

definition SquareSegment_createArray :: "SquareSegment \<Rightarrow> int \<Rightarrow> error + pyfloat list" where
  "SquareSegment_createArray self sweep =
     (case calculateNumberOfPoints self (Fin (duration self)) of
        Inl e \<Rightarrow> Inl e
      | Inr numPoints \<Rightarrow>
     (case SquareSegment_tiled self of
        Inl e \<Rightarrow> Inl e
      | Inr segment \<Rightarrow>
     (case ndarray_resize segment numPoints of
        Inl e \<Rightarrow> Inl e
      | Inr segment \<Rightarrow> Inr (items segment))))"

subsection \<open>Segments with an amplitude: \<^verbatim>\<open>ConstantSegment\<close> and \<^verbatim>\<open>RampSegment\<close>\<close>

text \<open>
  \<^verbatim>\<open>doStepping\<close> of the base class reads \<^verbatim>\<open>self.amplitude\<close>, which the constructors
  of the constant, ramp and chirp segments set. A constant and a ramp segment hold
  the same attributes.
\<close>

record SegmentWithAmplitude = Segment +
  amplitude :: real

type_synonym ConstantSegment = SegmentWithAmplitude
type_synonym RampSegment = SegmentWithAmplitude

definition doStepping ::
  "'a SegmentWithAmplitude_scheme \<Rightarrow> int \<Rightarrow> error + (pyfloat \<times> pyfloat)" where
  "doStepping self sweepNo =
     (case step self (duration self) (amplitude self) sweepNo of
        Inl e \<Rightarrow> Inl e
      | Inr (d, a) \<Rightarrow> Inr (d, applyAmplitudeScale self a))"

definition ConstantSegment_init ::
  "StimulationRecord \<Rightarrow> ChannelRecordStimulus \<Rightarrow> StimSegmentRecord \<Rightarrow> error + ConstantSegment" where
  "ConstantSegment_init stimRec channelRec segmentRec =
     (let base = Segment_init stimRec channelRec segmentRec
      in if VoltageSource segmentRec = ''Constant''
           then Inr (Segment.extend base (SegmentWithAmplitude.fields (Voltage segmentRec)))
         else if VoltageSource segmentRec = ''Hold''
           then Inr (Segment.extend base (SegmentWithAmplitude.fields (Holding channelRec)))
         else Inl (ValueError (Unsupported_voltage_source (VoltageSource segmentRec))))"

definition ConstantSegment_createArray :: "ConstantSegment \<Rightarrow> int \<Rightarrow> error + pyfloat list" where
  "ConstantSegment_createArray self sweep =
     (case doStepping self sweep of
        Inl e \<Rightarrow> Inl e
      | Inr (d, a) \<Rightarrow>
     (case calculateNumberOfPoints self d of
        Inl e \<Rightarrow> Inl e
      | Inr numPoints \<Rightarrow> np_full numPoints a))"

definition RampSegment_init ::
  "StimulationRecord \<Rightarrow> ChannelRecordStimulus \<Rightarrow> StimSegmentRecord \<Rightarrow> error + RampSegment" where
  "RampSegment_init stimRec channelRec segmentRec =
     (let base = Segment_init stimRec channelRec segmentRec
      in if VoltageSource segmentRec = ''Constant''
           then Inr (Segment.extend base (SegmentWithAmplitude.fields (Voltage segmentRec)))
         else if VoltageSource segmentRec = ''Hold''
           then Inr (Segment.extend base (SegmentWithAmplitude.fields (Holding channelRec)))
         else Inl (ValueError (Unsupported_voltage_source (VoltageSource segmentRec))))"

definition RampSegment_createArray :: "RampSegment \<Rightarrow> int \<Rightarrow> error + pyfloat list" where
  "RampSegment_createArray self sweep =
     (case doStepping self sweep of
        Inl e \<Rightarrow> Inl e
      | Inr (d, a) \<Rightarrow>
     (case calculateNumberOfPoints self d of
        Inl e \<Rightarrow> Inl e
      | Inr numPoints \<Rightarrow> np_linspace (Fin 0) a numPoints))"

subsection \<open>\<^verbatim>\<open>scipy.signal.chirp\<close>\<close>

text \<open>
  The two sweep methods that the module asks for. SciPy computes the phase
  \<open>2\<pi>(f0 t + \<beta> t\<^sup>2 / 2)\<close> with \<open>\<beta> = (f1 - f0) / t1\<close> for the linear method, and
  \<open>2\<pi> \<beta> f0 ((f1 / f0) powr (t / t1) - 1)\<close> with \<open>\<beta> = t1 / ln (f1 / f0)\<close> for the
  logarithmic one (\<open>2\<pi> f0 t\<close> when \<open>f0 = f1\<close>), which refuses frequencies that are
  zero or of opposite sign. The scalars \<open>f0\<close>, \<open>t1\<close>, \<open>f1\<close> are Python floats there,
  the times are an array. The waveform is the cosine of the phase shifted by
  \<open>phi\<close> degrees.
\<close>

datatype chirp_method = Method_linear | Method_logarithmic

fun lift1 :: "(real \<Rightarrow> real) \<Rightarrow> pyfloat \<Rightarrow> pyfloat" where
  "lift1 f (Fin x) = Fin (f x)"
| "lift1 f NaN = NaN"

definition chirp_phase ::
  "pyfloat list \<Rightarrow> real \<Rightarrow> pyfloat \<Rightarrow> real \<Rightarrow> chirp_method \<Rightarrow> error + pyfloat list" where
  "chirp_phase t f0 t1 f1 method =
     (case method of
        Method_linear \<Rightarrow>
          (case truediv (Fin (f1 - f0)) t1 of
             Inl e \<Rightarrow> Inl e
           | Inr beta \<Rightarrow>
               Inr (map (\<lambda>ti. fmul (Fin (2 * pi))
                                (fadd (fmul (Fin f0) ti)
                                      (fmul (fmul (fmul (Fin (1/2)) beta) ti) ti))) t))
      | Method_logarithmic \<Rightarrow>
          (if f0 * f1 \<le> 0 then Inl (ValueError Log_chirp_needs_same_sign)
           else if f0 = f1 then Inr (map (\<lambda>ti. fmul (Fin (2 * pi * f0)) ti) t)
           else
             let beta = np_divide t1 (Fin (ln (f1 / f0)))
             in Inr (map (\<lambda>ti. fmul (fmul (fmul (Fin (2 * pi)) beta) (Fin f0))
                                  (fsub (lift1 (\<lambda>e. (f1 / f0) powr e) (np_divide ti t1))
                                        (Fin 1))) t)))"

definition chirp ::
  "pyfloat list \<Rightarrow> real \<Rightarrow> pyfloat \<Rightarrow> real \<Rightarrow> chirp_method \<Rightarrow> real \<Rightarrow> error + pyfloat list" where
  "chirp t f0 t1 f1 method phi =
     (case chirp_phase t f0 t1 f1 method of
        Inl e \<Rightarrow> Inl e
      | Inr phase \<Rightarrow>
          (let phi = phi * (pi / 180)
           in Inr (map (\<lambda>p. lift1 cos (fadd p (Fin phi))) phase)))"

text \<open>
  The phase that \<open>chirp_phase\<close> computes for finite arguments and \<open>t1 \<noteq> 0\<close>, as a
  function of the time (lemma \<open>chirp_phase_Fin\<close> below).
\<close>

definition chirp_phase_fun :: "chirp_method \<Rightarrow> real \<Rightarrow> real \<Rightarrow> real \<Rightarrow> real \<Rightarrow> real" where
  "chirp_phase_fun method f0 t1 f1 t =
     (case method of
        Method_linear \<Rightarrow> 2 * pi * (f0 * t + 1/2 * ((f1 - f0) / t1) * t * t)
      | Method_logarithmic \<Rightarrow>
          (if f0 = f1 then 2 * pi * f0 * t
           else 2 * pi * (t1 / ln (f1 / f0)) * f0 * ((f1 / f0) powr (t / t1) - 1)))"

text \<open>
  The notion of the specification: a signal \<open>cos (\<phi> t + \<phi>\<^sub>0)\<close> has the instantaneous
  frequency \<open>f\<close> at the time \<open>t\<close> when the derivative of its phase there is \<open>2\<pi>f\<close>.
\<close>

definition has_instantaneous_frequency :: "(real \<Rightarrow> real) \<Rightarrow> real \<Rightarrow> real \<Rightarrow> bool" where
  "has_instantaneous_frequency \<phi> t f \<longleftrightarrow> (\<phi> has_real_derivative 2 * pi * f) (at t)"

subsection \<open>\<^verbatim>\<open>ChirpSegment\<close>\<close>

record ChirpSegment = SegmentWithAmplitude +
  startFreq :: real
  endFreq :: real
  kind_chirp :: string

definition ChirpSegment_init ::
  "StimulationRecord \<Rightarrow> ChannelRecordStimulus \<Rightarrow> StimSegmentRecord \<Rightarrow> error + ChirpSegment" where
  "ChirpSegment_init stimRec channelRec segmentRec =
     (let self = SegmentWithAmplitude.extend
                   (Segment.extend (Segment_init stimRec channelRec segmentRec)
                      (SegmentWithAmplitude.fields (Chirp_Amplitude channelRec)))
                   (ChirpSegment.fields (Chirp_StartFreq channelRec)
                      (Chirp_EndFreq channelRec) (Chirp_Kind channelRec))
      in if kind_chirp self \<noteq> ''Exponential'' \<and> kind_chirp self \<noteq> ''Linear''
           then Inl (ValueError (Chirp_kind_not_supported (kind_chirp self)))
         else Inr self)"

text \<open>
  \<^verbatim>\<open>method\<close> is bound in the two branches of the kind only; with any other kind the
  call of \<^verbatim>\<open>chirp\<close> would read an unbound local.
\<close>

definition ChirpSegment_method :: "ChirpSegment \<Rightarrow> error + chirp_method" where
  "ChirpSegment_method self =
     (if kind_chirp self = ''Exponential'' then Inr Method_logarithmic
      else if kind_chirp self = ''Linear'' then Inr Method_linear
      else Inl (UnboundLocalError ''method''))"

definition ChirpSegment_createArray :: "ChirpSegment \<Rightarrow> int \<Rightarrow> error + pyfloat list" where
  "ChirpSegment_createArray self sweep =
     (case doStepping self sweep of
        Inl e \<Rightarrow> Inl e
      | Inr (d, a) \<Rightarrow>
     (case calculateNumberOfPoints self d of
        Inl e \<Rightarrow> Inl e
      | Inr numPoints \<Rightarrow>
     (case np_linspace (Fin 0) d numPoints of
        Inl e \<Rightarrow> Inl e
      | Inr x \<Rightarrow>
     (case ChirpSegment_method self of
        Inl e \<Rightarrow> Inl e
      | Inr method \<Rightarrow>
     (case chirp x (startFreq self) d (endFreq self) method (- 90) of
        Inl e \<Rightarrow> Inl e
      | Inr w \<Rightarrow> Inr (map (\<lambda>v. fmul a v) w))))))"

text \<open>
  The samples of a chirp in closed form: the scaled cosine of the phase, shifted by
  \<open>-90\<close> degrees, at the \<open>n\<close> times \<open>i * d / (n - 1)\<close>.
\<close>

definition waveform ::
  "chirp_method \<Rightarrow> real \<Rightarrow> real \<Rightarrow> real \<Rightarrow> pyfloat \<Rightarrow> int \<Rightarrow> pyfloat list" where
  "waveform method f0 d f1 a n =
     map (\<lambda>i. fmul a (Fin (cos (chirp_phase_fun method f0 d f1
                                   (of_nat i * (d / of_int (n - 1))) + (- 90) * (pi / 180)))))
         [0 ..< nat n]"

subsection \<open>The factory and the call of \<^verbatim>\<open>createArray\<close> on an object\<close>

datatype segment =
    Square SquareSegment
  | Constant ConstantSegment
  | Ramp RampSegment
  | Chirp ChirpSegment

definition getSegmentClass ::
  "StimulationRecord \<Rightarrow> ChannelRecordStimulus \<Rightarrow> StimSegmentRecord \<Rightarrow> error + segment" where
  "getSegmentClass stimRec channelRec segmentRec =
     (if Class segmentRec = ''Squarewave''
        then map_sum id Square (SquareSegment_init stimRec channelRec segmentRec)
      else if Class segmentRec = ''Constant''
        then map_sum id Constant (ConstantSegment_init stimRec channelRec segmentRec)
      else if Class segmentRec = ''Ramp''
        then map_sum id Ramp (RampSegment_init stimRec channelRec segmentRec)
      else if Class segmentRec = ''Chirpwave''
        then map_sum id Chirp (ChirpSegment_init stimRec channelRec segmentRec)
      else Inl (ValueError (Unsupported_segment_class (Class segmentRec))))"

subsection \<open>The methods as steps on the object\<close>

text \<open>
  To speak about what a call does to the object, the methods that \<^verbatim>\<open>createArray\<close>
  reaches are written a second time as steps on \<^verbatim>\<open>self\<close>: a step takes the object
  and yields the result of the call (a value or an exception) together with the
  object after the call. The bodies follow the source statement by statement:
  \<open>getattr\<close> reads an attribute, \<open>setattr\<close> would assign one, \<open>of_result\<close> is a
  call that does not receive \<^verbatim>\<open>self\<close> (a static method, a function of the standard
  library, NumPy or SciPy), and \<open>and_then\<close> runs the rest of the body on the object
  that the first step left, unless that step raised. The arrays that the square
  segment changes in place (\<^verbatim>\<open>oneCycle\<close>, \<^verbatim>\<open>segment\<close>) are locals of the call.
\<close>

type_synonym ('s, 'a) call = "'s \<Rightarrow> (error + 'a) \<times> 's"

definition returns :: "'a \<Rightarrow> ('s, 'a) call" where
  "returns x = (\<lambda>self. (Inr x, self))"

definition of_result :: "error + 'a \<Rightarrow> ('s, 'a) call" where
  "of_result r = (\<lambda>self. (r, self))"

definition getattr :: "('s \<Rightarrow> 'a) \<Rightarrow> ('s, 'a) call" where
  "getattr field = (\<lambda>self. (Inr (field self), self))"

definition setattr :: "(('a \<Rightarrow> 'a) \<Rightarrow> 's \<Rightarrow> 's) \<Rightarrow> 'a \<Rightarrow> ('s, unit) call" where
  "setattr field_update v = (\<lambda>self. (Inr (), field_update (\<lambda>_. v) self))"

definition and_then :: "('s, 'a) call \<Rightarrow> ('a \<Rightarrow> ('s, 'b) call) \<Rightarrow> ('s, 'b) call" where
  "and_then m f = (\<lambda>self. case m self of
                            (Inl e, self') \<Rightarrow> (Inl e, self')
                          | (Inr x, self') \<Rightarrow> f x self')"

definition applyAmplitudeScale_call :: "pyfloat \<Rightarrow> ('a Segment_scheme, pyfloat) call" where
  "applyAmplitudeScale_call a =
     and_then (getattr amplitudeScale) (\<lambda>scale.
     returns (fmul a (Fin scale)))"

definition step_call ::
  "real \<Rightarrow> real \<Rightarrow> int \<Rightarrow> ('a Segment_scheme, pyfloat \<times> pyfloat) call" where
  "step_call xValue yValue sweepNo =
     and_then (getattr xDelta) (\<lambda>xd.
     and_then (of_result (applyDelta xd xValue sweepNo)) (\<lambda>x.
     and_then (getattr yDelta) (\<lambda>yd.
     and_then (of_result (applyDelta yd yValue sweepNo)) (\<lambda>y.
     returns (x, y)))))"

definition doStepping_call ::
  "int \<Rightarrow> ('a SegmentWithAmplitude_scheme, pyfloat \<times> pyfloat) call" where
  "doStepping_call sweepNo =
     and_then (getattr duration) (\<lambda>d0.
     and_then (getattr amplitude) (\<lambda>a0.
     and_then (step_call d0 a0 sweepNo) (\<lambda>(d, a).
     and_then (applyAmplitudeScale_call a) (\<lambda>scaled.
     returns (d, scaled)))))"

definition calculateNumberOfPoints_call :: "pyfloat \<Rightarrow> ('a Segment_scheme, int) call" where
  "calculateNumberOfPoints_call d =
     and_then (getattr sampleInterval) (\<lambda>si.
     and_then (of_result (truediv d (Fin si))) (\<lambda>q.
     of_result (math_trunc q)))"

definition SquareSegment_createArray_call :: "int \<Rightarrow> (SquareSegment, pyfloat list) call" where
  "SquareSegment_createArray_call sweep =
     and_then (getattr duration) (\<lambda>d.
     and_then (calculateNumberOfPoints_call (Fin d)) (\<lambda>numPoints.
     and_then (getattr cycleDuration) (\<lambda>c.
     and_then (getattr sampleInterval) (\<lambda>si.
     and_then (of_result (truediv (Fin c) (Fin si))) (\<lambda>q.
     and_then (of_result (math_trunc q)) (\<lambda>numPointsCycle.
     and_then (of_result (np_zeros numPointsCycle)) (\<lambda>oneCycle.
     let halfCycleLength = trunc_real (of_int numPointsCycle / 2) in
     and_then (getattr posAmp) (\<lambda>p.
     and_then (applyAmplitudeScale_call (Fin p)) (\<lambda>pos.
     let oneCycle = assign_slice oneCycle None (Some halfCycleLength) pos in
     and_then (getattr posAmp) (\<lambda>p.
     and_then (applyAmplitudeScale_call (Fin (- p))) (\<lambda>neg.
     let oneCycle = assign_slice oneCycle (Some halfCycleLength) None neg in
     and_then (getattr duration) (\<lambda>d.
     and_then (getattr cycleDuration) (\<lambda>c.
     and_then (of_result (truediv (Fin d) (Fin c))) (\<lambda>q.
     and_then (of_result (math_ceil q)) (\<lambda>numCycles.
     and_then (of_result (np_tile oneCycle numCycles)) (\<lambda>segment.
     and_then (of_result (ndarray_resize segment numPoints)) (\<lambda>segment.
     returns (items segment))))))))))))))))))"

definition ConstantSegment_createArray_call :: "int \<Rightarrow> (ConstantSegment, pyfloat list) call" where
  "ConstantSegment_createArray_call sweep =
     and_then (doStepping_call sweep) (\<lambda>(d, a).
     and_then (calculateNumberOfPoints_call d) (\<lambda>numPoints.
     of_result (np_full numPoints a)))"

definition RampSegment_createArray_call :: "int \<Rightarrow> (RampSegment, pyfloat list) call" where
  "RampSegment_createArray_call sweep =
     and_then (doStepping_call sweep) (\<lambda>(d, a).
     and_then (calculateNumberOfPoints_call d) (\<lambda>numPoints.
     of_result (np_linspace (Fin 0) a numPoints)))"

definition ChirpSegment_method_call :: "(ChirpSegment, chirp_method) call" where
  "ChirpSegment_method_call =
     and_then (getattr kind_chirp) (\<lambda>k.
     if k = ''Exponential'' then returns Method_logarithmic
     else and_then (getattr kind_chirp) (\<lambda>k.
          if k = ''Linear'' then returns Method_linear
          else of_result (Inl (UnboundLocalError ''method''))))"

definition ChirpSegment_createArray_call :: "int \<Rightarrow> (ChirpSegment, pyfloat list) call" where
  "ChirpSegment_createArray_call sweep =
     and_then (doStepping_call sweep) (\<lambda>(d, a).
     and_then (calculateNumberOfPoints_call d) (\<lambda>numPoints.
     and_then (of_result (np_linspace (Fin 0) d numPoints)) (\<lambda>x.
     and_then ChirpSegment_method_call (\<lambda>chirp_method.
     and_then (getattr startFreq) (\<lambda>f0.
     and_then (getattr endFreq) (\<lambda>f1.
     and_then (of_result (chirp x f0 d f1 chirp_method (- 90))) (\<lambda>w.
     returns (map (\<lambda>v. fmul a v) w))))))))"

text \<open>
  The call \<^verbatim>\<open>obj.createArray(sweep)\<close> on a segment object dispatches on its class.
\<close>

definition createArray :: "segment \<Rightarrow> int \<Rightarrow> (error + pyfloat list) \<times> segment" where
  "createArray self sweep =
     (case self of
        Square s \<Rightarrow> map_prod id Square (SquareSegment_createArray_call sweep s)
      | Constant s \<Rightarrow> map_prod id Constant (ConstantSegment_createArray_call sweep s)
      | Ramp s \<Rightarrow> map_prod id Ramp (RampSegment_createArray_call sweep s)
      | Chirp s \<Rightarrow> map_prod id Chirp (ChirpSegment_createArray_call sweep s))"

section \<open>Concrete inputs\<close>

text \<open>
  Every number below is a dyadic rational or a small decimal on which the operations
  of the module are exact, so that the evaluations hold for the floats as well.
\<close>

definition stimA :: StimulationRecord where
  "stimA = \<lparr> SampleInterval = 1 \<rparr>"

definition chanA :: ChannelRecordStimulus where
  "chanA = \<lparr> Square_PosAmpl = 1, Square_NegAmpl = 0, Square_Cycle = 3/2,
              Square_DurFactor = 0, Square_BaseIncr = 0, Square_Kind = ''Common Frequency'',
              Chirp_Amplitude = 1, Chirp_StartFreq = 1, Chirp_EndFreq = 2,
              Chirp_Kind = ''Linear'', Holding = 0 \<rparr>"

definition segA :: StimSegmentRecord where
  "segA = \<lparr> Class = ''Squarewave'', DurationIncMode = ''Inc'', DeltaTFactor = 1,
             DeltaTIncrement = 0, VoltageIncMode = ''Inc'', DeltaVFactor = 1,
             DeltaVIncrement = 0, Duration = 3, VoltageSource = ''Constant'', Voltage = 1 \<rparr>"

text \<open>The square segment of duration 3 with cycles of 3/2, sampled at interval 1.\<close>

definition squareA :: SquareSegment where
  "squareA = \<lparr> xDelta = \<lparr> mode = ''Inc'', factor = 1, inc = 0 \<rparr>,
                yDelta = \<lparr> mode = ''Inc'', factor = 1, inc = 0 \<rparr>,
                duration = 3, sampleInterval = 1, amplitudeScale = 1000,
                posAmp = 1, negAmp = 0, cycleDuration = 3/2, durationFactor = 0,
                baseIncr = 0, kind = ''Common Frequency'' \<rparr>"

text \<open>The same channel with a square kind that the module does not support.\<close>

definition chanB :: ChannelRecordStimulus where
  "chanB = chanA \<lparr> Square_Kind := ''Sine'' \<rparr>"

text \<open>The same channel with cycles of 2, a multiple of the sample interval.\<close>

definition chanC :: ChannelRecordStimulus where
  "chanC = chanA \<lparr> Square_Cycle := 2 \<rparr>"

definition squareC :: SquareSegment where
  "squareC = squareA \<lparr> cycleDuration := 2 \<rparr>"

definition segmentMs :: Segment where
  "segmentMs = \<lparr> xDelta = \<lparr> mode = ''Inc'', factor = 1, inc = 0 \<rparr>,
                  yDelta = \<lparr> mode = ''Inc'', factor = 1, inc = 0 \<rparr>,
                  duration = 1 / 100, sampleInterval = 1 / 1000, amplitudeScale = 1000 \<rparr>"

definition deltaLogActive :: deltaDict where
  "deltaLogActive = \<lparr> mode = ''LogInc'', factor = 2, inc = 0 \<rparr>"

definition deltaLogInactive :: deltaDict where
  "deltaLogInactive = \<lparr> mode = ''LogInc'', factor = 1, inc = 0 \<rparr>"

text \<open>A constant and a ramp segment of duration 3 and amplitude 1.\<close>

definition segConst :: StimSegmentRecord where
  "segConst = segA \<lparr> Class := ''Constant'' \<rparr>"

definition constA :: ConstantSegment where
  "constA = \<lparr> xDelta = \<lparr> mode = ''Inc'', factor = 1, inc = 0 \<rparr>,
               yDelta = \<lparr> mode = ''Inc'', factor = 1, inc = 0 \<rparr>,
               duration = 3, sampleInterval = 1, amplitudeScale = 1000, amplitude = 1 \<rparr>"

definition rampA :: RampSegment where
  "rampA = constA"

text \<open>A ramp of duration 1 whose amplitude is stepped logarithmically.\<close>

definition segRampLog :: StimSegmentRecord where
  "segRampLog = segA \<lparr> Class := ''Ramp'', VoltageIncMode := ''LogInc'', DeltaVFactor := 2,
                       Duration := 1 \<rparr>"

definition rampLog :: RampSegment where
  "rampLog = \<lparr> xDelta = \<lparr> mode = ''Inc'', factor = 1, inc = 0 \<rparr>,
                yDelta = \<lparr> mode = ''LogInc'', factor = 2, inc = 0 \<rparr>,
                duration = 1, sampleInterval = 1, amplitudeScale = 1000, amplitude = 1 \<rparr>"

text \<open>A linear chirp from 1 to 2, and an exponential chirp that starts at 0.\<close>

definition chirpL :: ChirpSegment where
  "chirpL = \<lparr> xDelta = \<lparr> mode = ''Inc'', factor = 1, inc = 0 \<rparr>,
               yDelta = \<lparr> mode = ''Inc'', factor = 1, inc = 0 \<rparr>,
               duration = 3, sampleInterval = 1, amplitudeScale = 1000, amplitude = 1,
               startFreq = 1, endFreq = 2, kind_chirp = ''Linear'' \<rparr>"

definition chanE :: ChannelRecordStimulus where
  "chanE = chanA \<lparr> Chirp_StartFreq := 0, Chirp_Kind := ''Exponential'' \<rparr>"



definition chirpE :: ChirpSegment where
  "chirpE = chirpL \<lparr> startFreq := 0, kind_chirp := ''Exponential'' \<rparr>"

section \<open>Auxiliary facts\<close>

lemma call_simps:
  "returns x self = (Inr x, self)"
  "of_result r self = (r, self)"
  "getattr field self = (Inr (field self), self)"
  "and_then m f self = (case m self of (Inl e, self') \<Rightarrow> (Inl e, self')
                                     | (Inr y, self') \<Rightarrow> f y self')"
  by (simp_all add: returns_def of_result_def getattr_def and_then_def)

lemma SquareSegment_init_valid:
  assumes "SquareSegment_init stimRec channelRec segmentRec = Inr self"
  shows "cycleDuration self > 0" and "amplitudeScale self = 1000"
    and "\<not> hasXDelta self" and "\<not> hasYDelta self"
    and "kind self = ''Common Frequency''" and "baseIncr self = 0" and "durationFactor self = 0"
  using assms
  by (auto simp: SquareSegment_init_def Let_def Segment_init_def Segment.extend_def
      SquareSegment.fields_def split: if_splits)

lemma trunc_real_half: "0 \<le> k \<Longrightarrow> trunc_real (of_int k / 2) = k div 2"
proof -
  assume "0 \<le> k"
  have "\<lfloor>(of_int k :: real) / of_int 2\<rfloor> = k div 2"
    by (rule floor_divide_of_int_eq)
  with \<open>0 \<le> k\<close> show ?thesis by (simp add: trunc_real_def)
qed

lemma calculateNumberOfPoints_Fin:
  "sampleInterval self \<noteq> 0 \<Longrightarrow>
   calculateNumberOfPoints self (Fin d) = Inr (trunc_real (d / sampleInterval self))"
  by (simp add: calculateNumberOfPoints_def truediv_def)

lemma SquareSegment_oneCycle_items:
  assumes s: "sampleInterval self \<noteq> 0"
    and k: "k = trunc_real (cycleDuration self / sampleInterval self)" "0 \<le> k"
  shows "SquareSegment_oneCycle self =
         Inr \<lparr> items = replicate (nat (k div 2)) (applyAmplitudeScale self (Fin (posAmp self)))
                        @ replicate (nat k - nat (k div 2))
                            (applyAmplitudeScale self (Fin (- posAmp self))),
               owndata = True \<rparr>"
proof -
  have h: "nat (k div 2) \<le> nat k" using k(2) by simp
  have h0: "\<not> k div 2 < 0" using k(2) by simp
  show ?thesis
    using s k(2) h h0
    by (simp add: SquareSegment_oneCycle_def truediv_def k(1)[symmetric] np_zeros_def
        trunc_real_half assign_slice_def slice_bound_def Let_def min_def max_def)
qed

lemma SquareSegment_oneCycle_length:
  assumes "sampleInterval self \<noteq> 0"
    and "k = trunc_real (cycleDuration self / sampleInterval self)" "0 \<le> k"
    and "SquareSegment_oneCycle self = Inr c"
  shows "length (items c) = nat k"
proof -
  have "nat (k div 2) \<le> nat k" using assms(3) by simp
  then show ?thesis
    using SquareSegment_oneCycle_items[OF assms(1-3)] assms(4) by auto
qed

lemma np_tile_nonneg:
  assumes "0 \<le> reps"
  shows "np_tile A reps =
         Inr \<lparr> items = concat (replicate (nat reps) (items A)), owndata = (reps = 1) \<rparr>"
  using assms by (simp add: np_tile_def)

lemma SquareSegment_tiled_nonneg:
  assumes s: "0 < sampleInterval self" and c: "0 < cycleDuration self"
    and d: "0 \<le> duration self"
  obtains cyc where "SquareSegment_oneCycle self = Inr cyc"
    and "int (length (items cyc)) = \<lfloor>cycleDuration self / sampleInterval self\<rfloor>"
    and "SquareSegment_tiled self =
           Inr \<lparr> items = concat (replicate (nat \<lceil>duration self / cycleDuration self\<rceil>)
                                   (items cyc)),
                 owndata = (\<lceil>duration self / cycleDuration self\<rceil> = 1) \<rparr>"
proof -
  define k where "k = trunc_real (cycleDuration self / sampleInterval self)"
  have q: "0 \<le> cycleDuration self / sampleInterval self" using s c by simp
  then have kf: "k = \<lfloor>cycleDuration self / sampleInterval self\<rfloor>"
    by (simp add: k_def trunc_real_def)
  with q have k0: "0 \<le> k" by simp
  have s0: "sampleInterval self \<noteq> 0" using s by simp
  note one = SquareSegment_oneCycle_items[OF s0 k_def k0]
  obtain cyc where cyc: "SquareSegment_oneCycle self = Inr cyc" using one by blast
  have len: "length (items cyc) = nat k"
    by (rule SquareSegment_oneCycle_length[OF s0 k_def k0 cyc])
  have "0 \<le> duration self / cycleDuration self" using c d by simp
  then have m0: "0 \<le> \<lceil>duration self / cycleDuration self\<rceil>" by linarith
  have c0: "cycleDuration self \<noteq> 0" using c by simp
  have "SquareSegment_tiled self = np_tile cyc \<lceil>duration self / cycleDuration self\<rceil>"
    using c0 by (simp add: SquareSegment_tiled_def cyc truediv_def)
  then have "SquareSegment_tiled self =
           Inr \<lparr> items = concat (replicate (nat \<lceil>duration self / cycleDuration self\<rceil>)
                                   (items cyc)),
                 owndata = (\<lceil>duration self / cycleDuration self\<rceil> = 1) \<rparr>"
    using np_tile_nonneg[OF m0] by simp
  moreover have "int (length (items cyc)) = \<lfloor>cycleDuration self / sampleInterval self\<rfloor>"
    using len k0 kf by simp
  ultimately show ?thesis using cyc that by blast
qed

lemma length_concat_replicate: "length (concat (replicate m xs)) = m * length xs"
  by (induction m) simp_all

lemma np_linspace_Fin:
  assumes "0 \<le> n"
  shows "np_linspace (Fin s) (Fin e) n =
         Inr (map (\<lambda>i. Fin (s + of_nat i * ((e - s) / of_int (n - 1)))) [0 ..< nat n])"
proof (cases "n > 1")
  case False
  with assms have "n = 0 \<or> n = 1" by linarith
  then show ?thesis by (auto simp: np_linspace_def)
next
  case True
  define step where "step = (e - s) / of_int (n - 1)"
  define X where "X = map (\<lambda>v. fadd v (Fin s))
                (if np_divide (fsub (Fin e) (Fin s)) (Fin (of_int (n - 1))) = Fin 0
                 then map (\<lambda>v. fmul (np_divide v (Fin (of_int (n - 1)))) (fsub (Fin e) (Fin s)))
                        (map (\<lambda>i. Fin (of_nat i)) [0 ..< nat n])
                 else map (\<lambda>v. fmul v (np_divide (fsub (Fin e) (Fin s)) (Fin (of_int (n - 1)))))
                        (map (\<lambda>i. Fin (of_nat i)) [0 ..< nat n]))"
  have d0: "of_int (n - 1) \<noteq> (0::real)" using True by simp
  have c: "\<not> n < 0" "0 < n - 1" "1 < n" using True by simp_all
  have unf: "np_linspace (Fin s) (Fin e) n = Inr (X [nat n - 1 := Fin e])"
    unfolding np_linspace_def Let_def X_def using c by (simp only: if_True if_False)
  have body: "X = map (\<lambda>i. Fin (s + of_nat i * step)) [0 ..< nat n]"
    unfolding X_def using d0 by (auto simp: step_def add.commute)
  have last: "(map (\<lambda>i. Fin (s + of_nat i * step)) [0 ..< nat n]) [nat n - 1 := Fin e]
              = map (\<lambda>i. Fin (s + of_nat i * step)) [0 ..< nat n]"
  proof (rule nth_equalityI)
    show "length ((map (\<lambda>i. Fin (s + of_nat i * step)) [0 ..< nat n]) [nat n - 1 := Fin e])
          = length (map (\<lambda>i. Fin (s + of_nat i * step)) [0 ..< nat n])" by simp
  next
    fix i
    assume "i < length ((map (\<lambda>i. Fin (s + of_nat i * step)) [0 ..< nat n]) [nat n - 1 := Fin e])"
    then have i: "i < nat n" by simp
    have "real (nat n - 1) = of_int (n - 1)" using True by (simp add: of_nat_diff)
    then have "s + real (nat n - 1) * step = e" using d0 by (simp add: step_def)
    then show "(map (\<lambda>i. Fin (s + of_nat i * step)) [0 ..< nat n]) [nat n - 1 := Fin e] ! i
               = map (\<lambda>i. Fin (s + of_nat i * step)) [0 ..< nat n] ! i"
      using i by (cases "i = nat n - 1") simp_all
  qed
  have "np_linspace (Fin s) (Fin e) n = Inr (map (\<lambda>i. Fin (s + of_nat i * step)) [0 ..< nat n])"
    by (simp only: unf body last)
  then show ?thesis unfolding step_def .
qed

lemma ratio_pos: "0 < f0 * f1 \<Longrightarrow> 0 < f1 / (f0 :: real)"
  by (auto simp: zero_less_divide_iff zero_less_mult_iff)

lemma chirp_phase_Fin:
  assumes "t1 \<noteq> 0" and "method = Method_logarithmic \<Longrightarrow> 0 < f0 * f1"
  shows "chirp_phase (map Fin ts) f0 (Fin t1) f1 method =
         Inr (map (\<lambda>t. Fin (chirp_phase_fun method f0 t1 f1 t)) ts)"
proof (cases "method")
  case Method_linear
  then show ?thesis using assms(1)
    by (simp add: chirp_phase_def chirp_phase_fun_def truediv_def comp_def)
next
  case Method_logarithmic
  then have pos: "0 < f0 * f1" by (rule assms(2))
  show ?thesis
  proof (cases "f0 = f1")
    case True
    then show ?thesis using Method_logarithmic pos
      by (simp add: chirp_phase_def chirp_phase_fun_def comp_def)
  next
    case False
    have "0 < f1 / f0" using pos by (rule ratio_pos)
    moreover have "f1 / f0 \<noteq> 1" using False pos by auto
    ultimately have "ln (f1 / f0) \<noteq> 0" by simp
    then show ?thesis using Method_logarithmic pos False assms(1)
      by (simp add: chirp_phase_def chirp_phase_fun_def comp_def Let_def)
  qed
qed

lemma chirp_linear_frequency:
  assumes "t1 \<noteq> 0"
  shows "has_instantaneous_frequency (chirp_phase_fun Method_linear f0 t1 f1) t
           (f0 + (f1 - f0) / t1 * t)"
  unfolding has_instantaneous_frequency_def chirp_phase_fun_def chirp_method.case
  using assms by (auto intro!: derivative_eq_intros simp: field_simps)

lemma chirp_logarithmic_frequency:
  assumes "t1 \<noteq> 0" and "0 < f0 * f1"
  shows "has_instantaneous_frequency (chirp_phase_fun Method_logarithmic f0 t1 f1) t
           (f0 * (f1 / f0) powr (t / t1))"
proof (cases "f0 = f1")
  case True
  have "0 < f1 / f0" using assms(2) by (rule ratio_pos)
  have "f1 / f0 = 1" using True assms(2) by auto
  then have "(f1 / f0) powr (t / t1) = 1" by simp
  then show ?thesis
    unfolding has_instantaneous_frequency_def chirp_phase_fun_def chirp_method.case
    using True by (auto intro!: derivative_eq_intros)
next
  case False
  have r: "0 < f1 / f0" using assms(2) by (rule ratio_pos)
  moreover have "f1 / f0 \<noteq> 1" using False assms(2) by auto
  ultimately have l: "ln (f1 / f0) \<noteq> 0" by simp
  show ?thesis
    unfolding has_instantaneous_frequency_def chirp_phase_fun_def chirp_method.case
    using False r l assms(1)
    by (auto intro!: derivative_eq_intros simp: field_simps)
qed

lemma chirp_frequency_ends:
  assumes "t1 \<noteq> 0" and "method = Method_logarithmic \<Longrightarrow> 0 < f0 * f1"
  shows "has_instantaneous_frequency (chirp_phase_fun method f0 t1 f1) 0 f0"
    and "has_instantaneous_frequency (chirp_phase_fun method f0 t1 f1) t1 f1"
proof -
  show "has_instantaneous_frequency (chirp_phase_fun method f0 t1 f1) 0 f0"
  proof (cases "method")
    case Method_linear
    show ?thesis using chirp_linear_frequency[OF assms(1), of f0 f1 0] Method_linear by simp
  next
    case Method_logarithmic
    then have pos: "0 < f0 * f1" by (rule assms(2))
    have "f0 \<noteq> 0" "f1 \<noteq> 0" using pos by auto
    then have "f0 * (f1 / f0) powr (0 / t1) = f0" by simp
    then show ?thesis
      using chirp_logarithmic_frequency[OF assms(1) pos, of 0] Method_logarithmic
      by (simp only:)
  qed
  show "has_instantaneous_frequency (chirp_phase_fun method f0 t1 f1) t1 f1"
  proof (cases "method")
    case Method_linear
    show ?thesis using chirp_linear_frequency[OF assms(1), of f0 f1 t1] Method_linear assms(1)
      by simp
  next
    case Method_logarithmic
    then have pos: "0 < f0 * f1" by (rule assms(2))
    have r: "0 < f1 / f0" using pos by (rule ratio_pos)
    have f0: "f0 \<noteq> 0" using pos by auto
    have "t1 / t1 = 1" using assms(1) by simp
    moreover have "(f1 / f0) powr 1 = f1 / f0" using r by (simp only: powr_one less_imp_le)
    ultimately have "f0 * (f1 / f0) powr (t1 / t1) = f0 * (f1 / f0)" by (simp only:)
    also have "\<dots> = f1" using f0 by simp
    finally have "f0 * (f1 / f0) powr (t1 / t1) = f1" .
    then show ?thesis
      using chirp_logarithmic_frequency[OF assms(1) pos, of t1] Method_logarithmic
      by (simp only:)
  qed
qed

lemma ChirpSegment_createArray_Fin:
  assumes st: "doStepping self sweep = Inr (Fin d, a)" and d: "d \<noteq> 0"
    and n: "calculateNumberOfPoints self (Fin d) = Inr n" "0 \<le> n"
    and m: "ChirpSegment_method self = Inr method"
    and lg: "method = Method_logarithmic \<Longrightarrow> 0 < startFreq self * endFreq self"
  shows "ChirpSegment_createArray self sweep
         = Inr (waveform method (startFreq self) d (endFreq self) a n)"
proof -
  define ts where "ts = map (\<lambda>i. of_nat i * (d / of_int (n - 1))) [0 ..< nat n]"
  have x: "np_linspace (Fin 0) (Fin d) n = Inr (map Fin ts)"
    using np_linspace_Fin[OF n(2), of 0 d] by (simp add: ts_def comp_def)
  have ph: "chirp_phase (map Fin ts) (startFreq self) (Fin d) (endFreq self) method
            = Inr (map (\<lambda>t. Fin (chirp_phase_fun method (startFreq self) d (endFreq self) t)) ts)"
    using d lg by (rule chirp_phase_Fin)
  have "ChirpSegment_createArray self sweep
        = Inr (map (\<lambda>t. fmul a (Fin (cos (chirp_phase_fun method (startFreq self) d (endFreq self) t
                                            + (- 90) * (pi / 180))))) ts)"
    by (simp add: ChirpSegment_createArray_def st n(1) x m chirp_def ph Let_def comp_def)
  then show ?thesis by (simp add: waveform_def ts_def comp_def)
qed

text \<open>
  With more than one cycle the tiled array is a view; when its length is not the
  number of points, the resize is refused.
\<close>

lemma SquareSegment_createArray_refused:
  assumes "SquareSegment_init stimRec channelRec segmentRec = Inr self"
    and s: "0 < sampleInterval self" and d: "0 \<le> duration self"
    and m: "\<lceil>duration self / cycleDuration self\<rceil> \<noteq> 1"
    and l: "\<lceil>duration self / cycleDuration self\<rceil> * \<lfloor>cycleDuration self / sampleInterval self\<rfloor>
            \<noteq> \<lfloor>duration self / sampleInterval self\<rfloor>"
  shows "SquareSegment_createArray self sweep = Inl (ValueError Does_not_own_its_data)"
proof -
  have c: "0 < cycleDuration self" by (rule SquareSegment_init_valid(1)[OF assms(1)])
  define mm where "mm = \<lceil>duration self / cycleDuration self\<rceil>"
  define k where "k = \<lfloor>cycleDuration self / sampleInterval self\<rfloor>"
  define n where "n = \<lfloor>duration self / sampleInterval self\<rfloor>"
  have "0 \<le> duration self / cycleDuration self" using c d by simp
  then have m0: "0 \<le> mm" unfolding mm_def by linarith
  have k0: "0 \<le> k" using c s by (simp add: k_def)
  obtain cyc where "SquareSegment_oneCycle self = Inr cyc"
    and lc: "int (length (items cyc)) = k"
    and tl: "SquareSegment_tiled self =
             Inr \<lparr> items = concat (replicate (nat mm) (items cyc)), owndata = (mm = 1) \<rparr>"
    unfolding mm_def k_def by (rule SquareSegment_tiled_nonneg[OF s c d])
  have "length (items cyc) = nat k" using lc by simp
  then have len: "int (length (concat (replicate (nat mm) (items cyc)))) = mm * k"
    using m0 k0 by (simp add: length_concat_replicate nat_mult_distrib)
  have s0: "sampleInterval self \<noteq> 0" using s by simp
  have q: "0 \<le> duration self / sampleInterval self" using s d by simp
  then have calc: "calculateNumberOfPoints self (Fin (duration self)) = Inr n"
    by (simp add: calculateNumberOfPoints_Fin[OF s0] trunc_real_def n_def)
  have n0: "\<not> n < 0" using q by (simp add: n_def)
  have ne: "mm * k \<noteq> n" using l by (simp add: mm_def k_def n_def)
  have m1: "mm \<noteq> 1" using m by (simp add: mm_def)
  show ?thesis
    using n0 ne m1 len
    by (simp add: SquareSegment_createArray_def calc tl ndarray_resize_def)
qed

subsection \<open>The steps and the functions\<close>

text \<open>
  Each step computes the value of the function of the same name. The proofs go
  through the bodies of the steps; a body that assigned an attribute would not
  leave the object as it was, as \<open>setattr_changes\<close> shows for an assignment of the
  duration.
\<close>

lemma setattr_changes:
  "snd (and_then (setattr duration_update 0) (\<lambda>_. calculateNumberOfPoints_call d) self)
   = self \<lparr> duration := 0 \<rparr>"
  by (simp add: and_then_def setattr_def calculateNumberOfPoints_call_def getattr_def
      of_result_def split: sum.splits prod.splits)

lemma applyAmplitudeScale_call_eq:
  "applyAmplitudeScale_call a self = (Inr (applyAmplitudeScale self a), self)"
  by (simp add: applyAmplitudeScale_call_def call_simps applyAmplitudeScale_def)

lemma step_call_eq: "step_call x y sweepNo self = (step self x y sweepNo, self)"
  by (simp add: step_call_def call_simps step_def split: sum.splits)

lemma doStepping_call_eq: "doStepping_call sweepNo self = (doStepping self sweepNo, self)"
  by (simp add: doStepping_call_def call_simps step_call_eq applyAmplitudeScale_call_eq
      doStepping_def split: sum.splits prod.splits)

lemma calculateNumberOfPoints_call_eq:
  "calculateNumberOfPoints_call d self = (calculateNumberOfPoints self d, self)"
  by (simp add: calculateNumberOfPoints_call_def call_simps calculateNumberOfPoints_def
      split: sum.splits)

lemma ConstantSegment_createArray_call_eq:
  "ConstantSegment_createArray_call sweep self = (ConstantSegment_createArray self sweep, self)"
  by (simp add: ConstantSegment_createArray_call_def call_simps doStepping_call_eq
      calculateNumberOfPoints_call_eq ConstantSegment_createArray_def
      split: sum.splits prod.splits)

lemma RampSegment_createArray_call_eq:
  "RampSegment_createArray_call sweep self = (RampSegment_createArray self sweep, self)"
  by (simp add: RampSegment_createArray_call_def call_simps doStepping_call_eq
      calculateNumberOfPoints_call_eq RampSegment_createArray_def
      split: sum.splits prod.splits)

lemma ChirpSegment_method_call_eq:
  "ChirpSegment_method_call self = (ChirpSegment_method self, self)"
  by (simp add: ChirpSegment_method_call_def call_simps ChirpSegment_method_def)

lemma ChirpSegment_createArray_call_eq:
  "ChirpSegment_createArray_call sweep self = (ChirpSegment_createArray self sweep, self)"
  by (simp add: ChirpSegment_createArray_call_def call_simps doStepping_call_eq
      calculateNumberOfPoints_call_eq ChirpSegment_method_call_eq ChirpSegment_createArray_def
      split: sum.splits prod.splits)

lemma SquareSegment_createArray_call_eq:
  "SquareSegment_createArray_call sweep self = (SquareSegment_createArray self sweep, self)"
  by (simp add: SquareSegment_createArray_call_def call_simps calculateNumberOfPoints_call_eq
      applyAmplitudeScale_call_eq SquareSegment_createArray_def SquareSegment_tiled_def
      SquareSegment_oneCycle_def Let_def split: sum.splits)

subsection \<open>Evaluations\<close>

lemma initA: "SquareSegment_init stimA chanA segA = Inr squareA"
  by (simp add: SquareSegment_init_def Segment_init_def stimA_def chanA_def segA_def squareA_def
      Segment.extend_def SquareSegment.fields_def hasXDelta_def hasYDelta_def hasDelta_def Let_def)

lemma numA: "calculateNumberOfPoints squareA (Fin (duration squareA)) = Inr 3"
  by (simp add: calculateNumberOfPoints_def truediv_def squareA_def trunc_real_def)

lemma cycA: "SquareSegment_oneCycle squareA = Inr \<lparr> items = [Fin (-1000)], owndata = True \<rparr>"
  by (simp add: SquareSegment_oneCycle_def truediv_def squareA_def trunc_real_def np_zeros_def
      assign_slice_def slice_bound_def applyAmplitudeScale_def Let_def)

lemma tiledA:
  "SquareSegment_tiled squareA = Inr \<lparr> items = [Fin (-1000), Fin (-1000)], owndata = False \<rparr>"
  by (simp add: SquareSegment_tiled_def cycA)
     (simp add: squareA_def truediv_def np_tile_def numeral_2_eq_2)

lemma arrA: "SquareSegment_createArray squareA 0 = Inl (ValueError Does_not_own_its_data)"
  by (simp add: SquareSegment_createArray_def numA tiledA ndarray_resize_def)

lemma initC: "SquareSegment_init stimA chanC segA = Inr squareC"
  by (simp add: SquareSegment_init_def Segment_init_def stimA_def chanA_def chanC_def segA_def
      squareA_def squareC_def Segment.extend_def SquareSegment.fields_def hasXDelta_def
      hasYDelta_def hasDelta_def Let_def)

lemma cycC:
  "SquareSegment_oneCycle squareC = Inr \<lparr> items = [Fin 1000, Fin (-1000)], owndata = True \<rparr>"
  by (simp add: SquareSegment_oneCycle_def truediv_def squareA_def squareC_def trunc_real_def
      np_zeros_def assign_slice_def slice_bound_def applyAmplitudeScale_def Let_def
      numeral_2_eq_2)

lemma numC: "calculateNumberOfPoints squareC (Fin (duration squareC)) = Inr 3"
  by (simp add: calculateNumberOfPoints_def truediv_def squareA_def squareC_def trunc_real_def)

lemma tiledC:
  "SquareSegment_tiled squareC =
   Inr \<lparr> items = [Fin 1000, Fin (-1000), Fin 1000, Fin (-1000)], owndata = False \<rparr>"
  by (simp add: SquareSegment_tiled_def cycC)
     (simp add: squareA_def squareC_def truediv_def np_tile_def numeral_2_eq_2)





section \<open>The claims\<close>

subsection \<open>C1: the tiled square wave against the sample count\<close>




subsection \<open>C2: a square kind that is not supported\<close>

text \<open>
  Claim C2 says that the constructor of a square segment whose kind is not
  \<^verbatim>\<open>"Common Frequency"\<close> (with \<open>baseIncr = 0\<close> and \<open>durationFactor = 0\<close>) fails with a
  validation error that describes the field. The branch is there, but its message
  reads \<^verbatim>\<open>self.squareKind\<close>, which does not exist: on the channel record \<open>chanB\<close>,
  whose kind is \<^verbatim>\<open>"Sine"\<close>, the constructor ends in an \<^verbatim>\<open>AttributeError\<close>.
\<close>

theorem SquareSegment_init_unsupported_kind:
  "Square_BaseIncr chanB = 0 \<and> Square_DurFactor chanB = 0
   \<and> Square_Kind chanB \<noteq> ''Common Frequency''
   \<and> SquareSegment_init stimA chanB segA = Inl (AttributeError ''squareKind'')"
  by (simp add: SquareSegment_init_def Segment_init_def stimA_def chanA_def chanB_def segA_def
      Segment.extend_def SquareSegment.fields_def Let_def)

subsection \<open>C3: logarithmic stepping\<close>

text \<open>
  Claim C3 says that the stepping rule returns \<open>NaN\<close> for every stepping
  specification whose mode is \<^verbatim>\<open>LogInc\<close>. The rule first returns the value unchanged
  when the specification is inactive (factor 1 and increment 0), whatever the mode.
\<close>

theorem applyDelta_LogInc_inactive_counterexample:
  "mode deltaLogInactive = ''LogInc''
   \<and> applyDelta deltaLogInactive 5 0 = Inr (Fin 5)
   \<and> applyDelta deltaLogInactive 5 0 \<noteq> Inr NaN"
  by (simp add: applyDelta_def hasDelta_def deltaLogInactive_def)

text \<open>
  Claim C3, amended: for every active stepping specification (factor other than 1 or
  increment other than 0) whose mode is \<^verbatim>\<open>LogInc\<close>, every base value and every sweep
  index, the rule returns \<open>NaN\<close>.
\<close>

theorem applyDelta_LogInc_active:
  "hasDelta d \<Longrightarrow> mode d = ''LogInc'' \<Longrightarrow> applyDelta d val sweepNo = Inr NaN"
  by (simp add: applyDelta_def)

theorem applyDelta_LogInc_active_witness:
  "hasDelta deltaLogActive \<and> mode deltaLogActive = ''LogInc''
   \<and> applyDelta deltaLogActive 5 3 = Inr NaN"
proof -
  have h: "hasDelta deltaLogActive" by (simp add: hasDelta_def deltaLogActive_def)
  have m: "mode deltaLogActive = ''LogInc''" by (simp add: deltaLogActive_def)
  show ?thesis using h m applyDelta_LogInc_active[OF h m, of 5 3] by simp
qed

subsection \<open>C4: the number of points\<close>

text \<open>
  Claim C4 says that for every duration and every positive sample interval the
  number of points is \<open>\<lfloor>duration / sampleInterval\<rfloor>\<close>. \<^verbatim>\<open>math.trunc\<close> rounds towards
  zero: for a negative duration (which an increment below zero can step to) the two
  differ, as for the duration \<open>-3/2\<close> at the sample interval 1.
\<close>

theorem calculateNumberOfPoints_negative_counterexample:
  "0 < sampleInterval squareA
   \<and> calculateNumberOfPoints squareA (Fin (- 3 / 2)) = Inr (- 1)
   \<and> \<lfloor>(- 3 / 2) / sampleInterval squareA\<rfloor> = - 2"
  by (simp add: squareA_def calculateNumberOfPoints_def truediv_def trunc_real_def)

text \<open>
  Claim C4, amended: for every positive sample interval the number of points is the
  quotient \<open>duration / sampleInterval\<close> cut towards zero, that is its floor for every
  duration that is not negative (truncation, not rounding) and its ceiling for a
  negative one; the duration 0.01 at the sample interval 0.001 gives 10 points, and
  so does the duration 0.0105.
\<close>

theorem calculateNumberOfPoints_truncates:
  "(0 < sampleInterval self \<and> 0 \<le> d \<longrightarrow>
      calculateNumberOfPoints self (Fin d) = Inr \<lfloor>d / sampleInterval self\<rfloor>)
   \<and> (0 < sampleInterval self \<and> d < 0 \<longrightarrow>
      calculateNumberOfPoints self (Fin d) = Inr \<lceil>d / sampleInterval self\<rceil>)
   \<and> (sampleInterval self = 1 / 1000 \<longrightarrow>
      calculateNumberOfPoints self (Fin (1 / 100)) = Inr 10
      \<and> calculateNumberOfPoints self (Fin (105 / 10000)) = Inr 10)"
proof (intro conjI impI)
  assume "0 < sampleInterval self \<and> 0 \<le> d"
  then show "calculateNumberOfPoints self (Fin d) = Inr \<lfloor>d / sampleInterval self\<rfloor>"
    by (simp add: calculateNumberOfPoints_def truediv_def trunc_real_def)
next
  assume a: "0 < sampleInterval self \<and> d < 0"
  then have "d / sampleInterval self < 0" by (simp add: divide_neg_pos)
  with a show "calculateNumberOfPoints self (Fin d) = Inr \<lceil>d / sampleInterval self\<rceil>"
    by (simp add: calculateNumberOfPoints_def truediv_def trunc_real_def)
next
  assume s: "sampleInterval self = 1 / 1000"
  show "calculateNumberOfPoints self (Fin (1 / 100)) = Inr 10"
    unfolding calculateNumberOfPoints_def s by (simp add: truediv_def trunc_real_def)
next
  assume s: "sampleInterval self = 1 / 1000"
  show "calculateNumberOfPoints self (Fin (105 / 10000)) = Inr 10"
    unfolding calculateNumberOfPoints_def s by (simp add: truediv_def trunc_real_def)
qed


theorem calculateNumberOfPoints_truncates_witness:
  "0 < sampleInterval segmentMs \<and> sampleInterval segmentMs = 1 / 1000
   \<and> calculateNumberOfPoints segmentMs (Fin (1 / 100)) = Inr 10
   \<and> calculateNumberOfPoints segmentMs (Fin (105 / 10000)) = Inr 10
   \<and> calculateNumberOfPoints segmentMs (Fin (25 / 10000)) = Inr 2
   \<and> calculateNumberOfPoints segmentMs (Fin (- 25 / 10000)) = Inr (- 2)"
proof -
  have s: "sampleInterval segmentMs = 1 / 1000" by (simp add: segmentMs_def)
  have fl: "\<lfloor>(25 / 10000) / (1 / 1000 :: real)\<rfloor> = 2"
    and cl: "\<lceil>(- 25 / 10000) / (1 / 1000 :: real)\<rceil> = - 2" by simp_all
  have "calculateNumberOfPoints segmentMs (Fin (25 / 10000)) = Inr 2"
    using calculateNumberOfPoints_truncates[of segmentMs "25 / 10000"] fl unfolding s by simp
  moreover have "calculateNumberOfPoints segmentMs (Fin (- 25 / 10000)) = Inr (- 2)"
    using calculateNumberOfPoints_truncates[of segmentMs "- 25 / 10000"] cl unfolding s by simp
  moreover have "calculateNumberOfPoints segmentMs (Fin (1 / 100)) = Inr 10
      \<and> calculateNumberOfPoints segmentMs (Fin (105 / 10000)) = Inr 10"
    using calculateNumberOfPoints_truncates[of segmentMs 0] s by blast
  ultimately show ?thesis using s by simp
qed

subsection \<open>C5: the length of a square wave\<close>

text \<open>
  Claim C5 says that for every valid square segment and every sweep index the array
  that \<open>createArray\<close> returns has exactly as many samples as the number of points
  of the duration, whether or not the cycle duration divides the duration. The last
  statement of the method, \<^verbatim>\<open>segment.resize(numPoints)\<close>, is there to cut the tiled
  array to that length, but with more than one cycle \<^verbatim>\<open>np.tile\<close> hands back a view,
  which \<^verbatim>\<open>resize\<close> refuses to cut. For \<open>squareC\<close> (duration 3, cycles of 2, sample
  interval 1) the tiled array has 4 samples, the number of points is 3, and the call
  ends in a \<^verbatim>\<open>ValueError\<close> instead of an array of 3 samples.
\<close>

theorem SquareSegment_createArray_uneven_raises:
  "SquareSegment_init stimA chanC segA = Inr squareC
   \<and> calculateNumberOfPoints squareC (Fin (duration squareC)) = Inr 3
   \<and> SquareSegment_tiled squareC
       = Inr \<lparr> items = [Fin 1000, Fin (- 1000), Fin 1000, Fin (- 1000)], owndata = False \<rparr>
   \<and> SquareSegment_createArray squareC 0 = Inl (ValueError Does_not_own_its_data)"
  by (simp add: initC numC tiledC SquareSegment_createArray_def ndarray_resize_def)

subsection \<open>C6: one cycle of a square wave\<close>

text \<open>
  Claim C6: for a valid square segment with a positive sample interval, the cycle
  that \<open>createArray\<close> builds has \<open>cyclePoints = \<lfloor>cycleDuration / sampleInterval\<rfloor>\<close>
  samples; the first \<open>\<lfloor>cyclePoints / 2\<rfloor>\<close> are the scaled positive amplitude and the
  others the scaled negation of the positive amplitude; the field \<open>negAmp\<close> has no
  influence on the cycle nor on the array.
\<close>

theorem SquareSegment_oneCycle_halves:
  assumes "SquareSegment_init stimRec channelRec segmentRec = Inr self"
    and "0 < sampleInterval self"
  shows "\<exists>oneCycle.
           SquareSegment_oneCycle self = Inr oneCycle
         \<and> int (length (items oneCycle)) = \<lfloor>cycleDuration self / sampleInterval self\<rfloor>
         \<and> (\<forall>i < length (items oneCycle).
               items oneCycle ! i =
                 (if int i < \<lfloor>of_int \<lfloor>cycleDuration self / sampleInterval self\<rfloor> / (2::real)\<rfloor>
                  then applyAmplitudeScale self (Fin (posAmp self))
                  else applyAmplitudeScale self (Fin (- posAmp self))))
         \<and> (\<forall>v. SquareSegment_oneCycle (self\<lparr> negAmp := v \<rparr>) = SquareSegment_oneCycle self
                \<and> SquareSegment_createArray (self\<lparr> negAmp := v \<rparr>) sweep
                    = SquareSegment_createArray self sweep)"
proof -
  have c: "0 < cycleDuration self" by (rule SquareSegment_init_valid(1)[OF assms(1)])
  define k where "k = trunc_real (cycleDuration self / sampleInterval self)"
  have q: "0 \<le> cycleDuration self / sampleInterval self" using assms(2) c by simp
  then have kf: "k = \<lfloor>cycleDuration self / sampleInterval self\<rfloor>"
    by (simp add: k_def trunc_real_def)
  with q have k0: "0 \<le> k" by simp
  have s0: "sampleInterval self \<noteq> 0" using assms(2) by simp
  define P where "P = applyAmplitudeScale self (Fin (posAmp self))"
  define N where "N = applyAmplitudeScale self (Fin (- posAmp self))"
  define cyc where "cyc = \<lparr> items = replicate (nat (k div 2)) P @ replicate (nat k - nat (k div 2)) N,
                            owndata = True \<rparr>"
  have one: "SquareSegment_oneCycle self = Inr cyc"
    unfolding cyc_def P_def N_def by (rule SquareSegment_oneCycle_items[OF s0 k_def k0])
  have h: "nat (k div 2) \<le> nat k" using k0 by simp
  have len: "int (length (items cyc)) = k" using h k0 by (simp add: cyc_def)
  have half: "\<lfloor>of_int k / (2::real)\<rfloor> = k div 2"
    using floor_divide_of_int_eq[of k 2, where ?'a = real] by simp
  have elems: "\<forall>i < length (items cyc).
                 items cyc ! i = (if int i < \<lfloor>of_int k / (2::real)\<rfloor> then P else N)"
  proof (intro allI impI)
    fix i assume "i < length (items cyc)"
    then have i: "i < nat k" using h by (simp add: cyc_def)
    have iff: "int i < k div 2 \<longleftrightarrow> i < nat (k div 2)" using k0 by linarith
    have "\<not> i < nat (k div 2) \<Longrightarrow> i - nat (k div 2) < nat k - nat (k div 2)"
      using i by linarith
    then show "items cyc ! i = (if int i < \<lfloor>of_int k / (2::real)\<rfloor> then P else N)"
      unfolding half iff by (simp add: cyc_def nth_append)
  qed
  have neg1: "\<forall>v. SquareSegment_oneCycle (self\<lparr> negAmp := v \<rparr>) = SquareSegment_oneCycle self"
    by (simp add: SquareSegment_oneCycle_def applyAmplitudeScale_def Let_def
        cong: sum.case_cong)
  have neg2: "\<forall>v. SquareSegment_createArray (self\<lparr> negAmp := v \<rparr>) sweep
                    = SquareSegment_createArray self sweep"
    using neg1 by (simp add: SquareSegment_createArray_def SquareSegment_tiled_def
        calculateNumberOfPoints_def cong: sum.case_cong)
  show ?thesis
    using one len elems neg1 neg2 unfolding kf P_def N_def by blast
qed


theorem SquareSegment_oneCycle_halves_witness:
  "SquareSegment_init stimA chanC segA = Inr squareC \<and> 0 < sampleInterval squareC
   \<and> SquareSegment_oneCycle squareC
       = Inr \<lparr> items = [Fin 1000, Fin (- 1000)], owndata = True \<rparr>
   \<and> SquareSegment_oneCycle (squareC \<lparr> negAmp := 7 \<rparr>) = SquareSegment_oneCycle squareC"
proof -
  have s: "0 < sampleInterval squareC" by (simp add: squareC_def squareA_def)
  have "SquareSegment_oneCycle squareC = Inr \<lparr> items = [Fin 1000, Fin (- 1000)], owndata = True \<rparr>"
    by (simp add: SquareSegment_oneCycle_def truediv_def squareA_def
      squareC_def trunc_real_def np_zeros_def assign_slice_def slice_bound_def
      applyAmplitudeScale_def Let_def numeral_2_eq_2)
  then show ?thesis
    using SquareSegment_oneCycle_halves[OF initC s, of 0] initC s by simp
qed

subsection \<open>C7: the ramp\<close>

text \<open>
  Claim C7 says that for every ramp segment and every sweep index \<open>createArray\<close>
  returns \<open>n\<close> evenly spaced samples from 0 to the stepped, scaled amplitude: the
  first sample is 0 and the last the amplitude when \<open>n \<ge> 2\<close>, and the result is
  \<open>[0]\<close> when \<open>n = 1\<close>. With an active logarithmic stepping of the amplitude the
  stepped amplitude is \<open>NaN\<close>, and so is every sample, the first one included.
\<close>

theorem RampSegment_createArray_NaN_counterexample:
  "RampSegment_init stimA chanA segRampLog = Inr rampLog
   \<and> calculateNumberOfPoints rampLog (Fin 1) = Inr 1
   \<and> RampSegment_createArray rampLog 0 = Inr [NaN]
   \<and> RampSegment_createArray (rampLog \<lparr> duration := 2 \<rparr>) 0 = Inr [NaN, NaN]"
  by (simp add: RampSegment_init_def Segment_init_def stimA_def chanA_def segA_def
      segRampLog_def rampLog_def Segment.extend_def SegmentWithAmplitude.fields_def Let_def
      RampSegment_createArray_def doStepping_def step_def applyDelta_def hasDelta_def
      applyAmplitudeScale_def calculateNumberOfPoints_def truediv_def trunc_real_def
      np_linspace_def numeral_2_eq_2)

text \<open>
  Claim C7, amended: for every ramp segment and every sweep index at which the
  stepped amplitude \<open>a\<close> (scaled) is a number and the number of points \<open>n\<close> of the
  stepped duration is not negative, \<open>createArray\<close> returns the \<open>n\<close> evenly spaced
  samples \<open>i * a / (n - 1)\<close>: the first is 0 and the last is \<open>a\<close> when \<open>n \<ge> 2\<close>, and
  the result is \<open>[0]\<close> when \<open>n = 1\<close>.
\<close>

theorem RampSegment_createArray_linspace:
  assumes "doStepping self sweep = Inr (d, Fin a)"
    and "calculateNumberOfPoints self d = Inr n" and "0 \<le> n"
  shows "\<exists>arr. RampSegment_createArray self sweep = Inr arr
           \<and> int (length arr) = n
           \<and> (\<forall>i < length arr. arr ! i = Fin (of_nat i * (a / of_int (n - 1))))
           \<and> (2 \<le> n \<longrightarrow> hd arr = Fin 0 \<and> last arr = Fin a)
           \<and> (n = 1 \<longrightarrow> arr = [Fin 0])"
proof -
  define arr where "arr = map (\<lambda>i. Fin (of_nat i * (a / of_int (n - 1)))) [0 ..< nat n]"
  have r: "RampSegment_createArray self sweep = Inr arr"
    using np_linspace_Fin[OF assms(3), of 0 a]
    by (simp add: RampSegment_createArray_def assms(1,2) arr_def)
  have len: "int (length arr) = n" using assms(3) by (simp add: arr_def)
  have el: "\<forall>i < length arr. arr ! i = Fin (of_nat i * (a / of_int (n - 1)))"
    by (simp add: arr_def)
  have ends: "hd arr = Fin 0 \<and> last arr = Fin a" if "2 \<le> n"
  proof -
    have ne: "[0 ..< nat n] \<noteq> []" using that by simp
    have h: "hd [0 ..< nat n] = 0" using that by (simp add: hd_upt)
    have l: "last [0 ..< nat n] = nat n - 1" using that by (simp add: last_upt)
    have "real (nat n - 1) = of_int (n - 1)" using that by (simp add: of_nat_diff)
    moreover have "of_int (n - 1) \<noteq> (0::real)" using that by simp
    ultimately have "real (nat n - 1) * (a / of_int (n - 1)) = a" by simp
    then show ?thesis using ne h l by (simp add: arr_def hd_map last_map)
  qed
  have one: "arr = [Fin 0]" if "n = 1" using that by (simp add: arr_def)
  show ?thesis using r len el ends one by blast
qed


theorem RampSegment_createArray_linspace_witness:
  "doStepping rampA 0 = Inr (Fin 3, Fin 1000)
   \<and> calculateNumberOfPoints rampA (Fin 3) = Inr 3 \<and> (0::int) \<le> 3
   \<and> RampSegment_createArray rampA 0 = Inr [Fin 0, Fin 500, Fin 1000]"
proof -
  have st: "doStepping rampA 0 = Inr (Fin 3, Fin 1000)"
    by (simp add: rampA_def constA_def doStepping_def step_def applyDelta_def hasDelta_def
        applyAmplitudeScale_def)
  have n: "calculateNumberOfPoints rampA (Fin 3) = Inr 3"
    by (simp add: rampA_def constA_def calculateNumberOfPoints_def truediv_def trunc_real_def)
  have n0: "(0::int) \<le> 3" by simp
  obtain arr where arr: "RampSegment_createArray rampA 0 = Inr arr"
    and len: "int (length arr) = 3"
    and el: "\<forall>i < length arr. arr ! i = Fin (of_nat i * (1000 / of_int (3 - 1)))"
    using RampSegment_createArray_linspace[OF st n n0] by blast
  have l3: "length arr = 3" using len by simp
  have "arr ! 0 = Fin 0" "arr ! 1 = Fin 500" "arr ! 2 = Fin 1000"
    using el l3 by simp_all
  then have "arr = [Fin 0, Fin 500, Fin 1000]"
    using l3 by (intro nth_equalityI) (auto simp: less_Suc_eq numeral_3_eq_3 numeral_2_eq_2)
  then show ?thesis using st n arr by simp
qed

subsection \<open>C8: the frequencies at the ends of a chirp\<close>

text \<open>
  Claim C8 says that for every valid chirp segment the waveform that \<open>createArray\<close>
  returns has the instantaneous frequency \<open>startFreq\<close> at the time 0 and \<open>endFreq\<close>
  at the end of the duration, for both kinds. A valid exponential chirp whose start
  frequency is 0 has no waveform: the logarithmic method of SciPy refuses frequencies
  that are zero or of opposite sign.
\<close>

theorem ChirpSegment_createArray_zero_frequency_counterexample:
  "ChirpSegment_init stimA chanE segA = Inr chirpE
   \<and> ChirpSegment_createArray chirpE 0 = Inl (ValueError Log_chirp_needs_same_sign)"
  by (simp add: ChirpSegment_init_def Segment_init_def stimA_def chanA_def chanE_def segA_def
      chirpE_def chirpL_def Segment.extend_def SegmentWithAmplitude.extend_def
      SegmentWithAmplitude.fields_def ChirpSegment.fields_def Let_def
      ChirpSegment_createArray_def doStepping_def step_def applyDelta_def hasDelta_def
      applyAmplitudeScale_def calculateNumberOfPoints_def truediv_def trunc_real_def
      np_linspace_def ChirpSegment_method_def chirp_def chirp_phase_def)

text \<open>
  Claim C8, amended: for every valid chirp segment and every sweep index at which
  the stepped duration \<open>d\<close> is a number other than 0 and \<open>createArray\<close> returns an
  array (for the exponential kind it does so only when the two frequencies are not 0
  and have the same sign), the array holds the samples of the scaled cosine of a
  phase, shifted by \<open>-90\<close> degrees, whose instantaneous frequency is \<open>startFreq\<close> at
  the time 0 and \<open>endFreq\<close> at the time \<open>d\<close>, for both kinds.
\<close>

theorem ChirpSegment_endpoint_frequencies:
  assumes "ChirpSegment_init stimRec channelRec segmentRec = Inr self"
    and st: "doStepping self sweep = Inr (Fin d, a)" and d: "d \<noteq> 0"
    and arr: "ChirpSegment_createArray self sweep = Inr arr"
  shows "\<exists>method n.
           ChirpSegment_method self = Inr method
         \<and> calculateNumberOfPoints self (Fin d) = Inr n
         \<and> arr = waveform method (startFreq self) d (endFreq self) a n
         \<and> has_instantaneous_frequency
              (chirp_phase_fun method (startFreq self) d (endFreq self)) 0 (startFreq self)
         \<and> has_instantaneous_frequency
              (chirp_phase_fun method (startFreq self) d (endFreq self)) d (endFreq self)"
proof -
  obtain n where n: "calculateNumberOfPoints self (Fin d) = Inr n"
    using arr by (auto simp: ChirpSegment_createArray_def st split: sum.splits)
  have n0: "0 \<le> n"
    using arr by (auto simp: ChirpSegment_createArray_def st n np_linspace_def
        split: sum.splits if_splits)
  obtain x where x: "np_linspace (Fin 0) (Fin d) n = Inr x"
    using arr by (auto simp: ChirpSegment_createArray_def st n split: sum.splits)
  obtain meth where m: "ChirpSegment_method self = Inr meth"
    using arr by (auto simp: ChirpSegment_createArray_def st n x split: sum.splits)
  have lg: "0 < startFreq self * endFreq self" if "meth = Method_logarithmic"
    using arr that
    by (auto simp: ChirpSegment_createArray_def st n x m chirp_def chirp_phase_def
        split: sum.splits if_splits)
  have "arr = waveform meth (startFreq self) d (endFreq self) a n"
    using ChirpSegment_createArray_Fin[OF st d n n0 m lg] arr by simp
  then show ?thesis
    using m n chirp_frequency_ends[OF d lg, of meth] by blast
qed


theorem ChirpSegment_endpoint_frequencies_witness:
  "ChirpSegment_init stimA chanA segA = Inr chirpL
   \<and> doStepping chirpL 0 = Inr (Fin 3, Fin 1000) \<and> (3::real) \<noteq> 0
   \<and> ChirpSegment_createArray chirpL 0 = Inr (waveform Method_linear 1 3 2 (Fin 1000) 3)
   \<and> has_instantaneous_frequency (chirp_phase_fun Method_linear 1 3 2) 0 1
   \<and> has_instantaneous_frequency (chirp_phase_fun Method_linear 1 3 2) 3 2"
proof -
  have init: "ChirpSegment_init stimA chanA segA = Inr chirpL"
    by (simp add: ChirpSegment_init_def Segment_init_def stimA_def chanA_def segA_def
        chirpL_def Segment.extend_def SegmentWithAmplitude.extend_def
        SegmentWithAmplitude.fields_def ChirpSegment.fields_def Let_def)
  have st: "doStepping chirpL 0 = Inr (Fin 3, Fin 1000)"
    by (simp add: chirpL_def doStepping_def step_def applyDelta_def hasDelta_def
        applyAmplitudeScale_def)
  have d: "(3::real) \<noteq> 0" by simp
  have n: "calculateNumberOfPoints chirpL (Fin 3) = Inr 3" "(0::int) \<le> 3"
    by (simp_all add: chirpL_def calculateNumberOfPoints_def truediv_def trunc_real_def)
  have m: "ChirpSegment_method chirpL = Inr Method_linear"
    by (simp add: ChirpSegment_method_def chirpL_def)
  have f: "startFreq chirpL = 1" "endFreq chirpL = 2" by (simp_all add: chirpL_def)
  have arr: "ChirpSegment_createArray chirpL 0 = Inr (waveform Method_linear 1 3 2 (Fin 1000) 3)"
    using ChirpSegment_createArray_Fin[OF st d n m] by (simp add: f)
  show ?thesis
    using ChirpSegment_endpoint_frequencies[OF init st d arr] init st arr m
    by (auto simp: f)
qed

subsection \<open>C9: \<open>createArray\<close> does not change the segment\<close>

text \<open>
  Claim C9: for every segment that the factory constructs, of any variant, and every
  sweep index, the object that the call of \<open>createArray\<close> leaves is the object it
  was called on, field by field, whether the call returns an array or raises; and a
  second call with the same sweep index on it gives the same result as the first.
\<close>

theorem createArray_leaves_segment:
  assumes "getSegmentClass stimRec channelRec segmentRec = Inr self"
  shows "snd (createArray self sweep) = self
       \<and> fst (createArray (snd (createArray self sweep)) sweep) = fst (createArray self sweep)"
proof -
  have frame: "snd (createArray self sweep) = self"
    by (cases self)
       (simp_all add: createArray_def SquareSegment_createArray_call_eq
          ConstantSegment_createArray_call_eq RampSegment_createArray_call_eq
          ChirpSegment_createArray_call_eq)
  then show ?thesis by simp
qed

theorem createArray_leaves_segment_witness:
  "getSegmentClass stimA chanA segConst = Inr (Constant constA)
   \<and> snd (createArray (Constant constA) 3) = Constant constA
   \<and> fst (createArray (snd (createArray (Constant constA) 3)) 3)
       = Inr [Fin 1000, Fin 1000, Fin 1000]"
proof -
  have g: "getSegmentClass stimA chanA segConst = Inr (Constant constA)"
    by (simp add: getSegmentClass_def ConstantSegment_init_def Segment_init_def stimA_def
        chanA_def segA_def segConst_def constA_def Segment.extend_def
        SegmentWithAmplitude.fields_def Let_def)
  have c: "fst (createArray (Constant constA) 3) = Inr [Fin 1000, Fin 1000, Fin 1000]"
    by (simp add: createArray_def ConstantSegment_createArray_call_eq
        ConstantSegment_createArray_def constA_def doStepping_def
        step_def applyDelta_def hasDelta_def applyAmplitudeScale_def
        calculateNumberOfPoints_def truediv_def trunc_real_def np_full_def numeral_3_eq_3)
  show ?thesis using createArray_leaves_segment[OF g, of 3] g c by simp
qed

subsection \<open>C10: a tiled array that is too short\<close>

text \<open>
  Claim C10 says that for a valid square segment whose tiled array is shorter than
  the number of points, \<open>createArray\<close> fills the missing samples with \<open>0.0\<close>. That
  is what \<^verbatim>\<open>segment.resize(numPoints)\<close> does to an array that owns its data; a tiled
  array that is too short has more than one cycle and is a view, which \<^verbatim>\<open>resize\<close>
  refuses to enlarge. For \<open>squareA\<close> the tiled array has 2 samples, the number of
  points is 3, and the call ends in a \<^verbatim>\<open>ValueError\<close> instead of an array that ends
  in a zero.
\<close>

theorem SquareSegment_createArray_short_raises:
  "SquareSegment_init stimA chanA segA = Inr squareA
   \<and> SquareSegment_tiled squareA
       = Inr \<lparr> items = [Fin (- 1000), Fin (- 1000)], owndata = False \<rparr>
   \<and> calculateNumberOfPoints squareA (Fin (duration squareA)) = Inr 3
   \<and> int (length [Fin (- 1000), Fin (- 1000)]) < 3
   \<and> SquareSegment_createArray squareA 0 = Inl (ValueError Does_not_own_its_data)"
  by (simp add: initA tiledA numA arrA)

end
